theory Spec2Isabelle
  imports Complex_Main
begin

section \<open>Numeric conventions\<close>

text \<open>
  The module \<open>HaloPotential.py\<close> computes with numpy floats that carry astropy units.
  Here a physical quantity is a \<open>real\<close>: its value in one coherent unit system (lengths
  in kpc, masses in solar masses, velocities in km/s), so that a unit conversion
  \<open>.to(...)\<close> and \<open>.value\<close> on a length in kpc leave the number unchanged.
  Rounding is not modelled: the theorems below are statements of exact real arithmetic.

  The operators of the source are read as follows:
  \<^item> \<open>x**2\<close>, \<open>x**3\<close> are \<open>x\<^sup>2\<close>, \<open>x ^ 3\<close>;
  \<^item> \<open>x**-1.\<close> is \<open>inverse x\<close> and \<open>x**0.5\<close> is \<open>sqrt x\<close>;
  \<^item> \<open>x**y\<close> with any other exponent is \<open>x powr y\<close>, which is what the float power
    computes on a positive base.

  A float division by zero, the logarithm of a non-positive number and a fractional power
  of a negative number give an IEEE infinity or NaN in the source and raise nothing. The
  reals have no such values: the model agrees with the source where every denominator is
  non-zero and every logarithm and fractional power has a positive argument, that is for
  positive radii, masses, concentrations and densities.
\<close>

datatype py_error = IndexError | TypeError | ArangeLengthError

text \<open>
  The collaborators the module imports: \<open>cons.G\<close>, \<open>cons.m_p\<close> and the cosmology
  \<open>Planck15\<close> (\<open>cosmo.H0.value\<close>, \<open>cosmo.Om(z)\<close>, \<open>cosmo.critical_density(z)\<close>).
  Their code is not part of the module; they are parameters of every function below.
\<close>

record cosmology =
  cons_G :: real
  cons_m_p :: real
  cosmo_H0 :: real
  cosmo_Om :: "real \<Rightarrow> real"
  cosmo_critical_density :: "real \<Rightarrow> real"

definition h0 :: "cosmology \<Rightarrow> real" where
  "h0 env = cosmo_H0 env / 100"

definition X :: real where
  "X = 0.75"

definition mu :: real where
  "mu = 4 / (3 + 5 * X)"

subsection \<open>numpy: arange, searchsorted, indexing\<close>

text \<open>
  \<open>arange(start, stop, step)\<close> on floats has \<open>ceil((stop - start) / step)\<close> elements
  (none when that is not positive), the \<open>i\<close>-th being \<open>start + i * step\<close>. With a zero
  step the length is infinite or NaN and numpy raises (a ValueError or an OverflowError,
  depending on its version).
\<close>

definition arange :: "real \<Rightarrow> real \<Rightarrow> real \<Rightarrow> py_error + real list" where
  "arange start stop step =
     (if step = 0 then Inl ArangeLengthError
      else Inr (map (\<lambda>i. start + real i * step) [0..<nat \<lceil>(stop - start) / step\<rceil>]))"

text \<open>
  \<open>searchsorted(a, v)\<close> with the default \<open>side='left'\<close> is numpy's binary search:
  \<^verbatim>\<open>
  while (min_idx < max_idx) {
      mid_idx = min_idx + ((max_idx - min_idx) >> 1);
      if (arr[mid_idx] < key) min_idx = mid_idx + 1;
      else max_idx = mid_idx;
  }
  return min_idx;
  \<close>
  It never checks that \<open>a\<close> is sorted.
\<close>

function binsearch_left :: "real list \<Rightarrow> real \<Rightarrow> nat \<Rightarrow> nat \<Rightarrow> nat" where
  "binsearch_left arr key min_idx max_idx =
     (if min_idx < max_idx then
        (let mid_idx = min_idx + (max_idx - min_idx) div 2 in
         if arr ! mid_idx < key then binsearch_left arr key (mid_idx + 1) max_idx
         else binsearch_left arr key min_idx mid_idx)
      else min_idx)"
  by pat_completeness auto
termination
  by (relation "measure (\<lambda>(arr, key, min_idx, max_idx). max_idx - min_idx)") auto

declare binsearch_left.simps [simp del]

definition searchsorted :: "real list \<Rightarrow> real \<Rightarrow> nat" where
  "searchsorted a v = binsearch_left a v 0 (length a)"

text \<open>\<open>rs[i]\<close> for an index that is never negative: out of range raises IndexError.\<close>

definition getitem :: "real list \<Rightarrow> nat \<Rightarrow> py_error + real" where
  "getitem rs i = (if i < length rs then Inr (rs ! i) else Inl IndexError)"

text \<open>
  A radius argument is a scalar or an array; arithmetic broadcasts elementwise, and
  indexing a scalar quantity raises TypeError.
\<close>

datatype quantity = Scalar real | Array "real list"

fun broadcast :: "(real \<Rightarrow> real) \<Rightarrow> quantity \<Rightarrow> quantity" where
  "broadcast f (Scalar x) = Scalar (f x)"
| "broadcast f (Array xs) = Array (map f xs)"

fun getitem_quantity :: "quantity \<Rightarrow> nat \<Rightarrow> py_error + real" where
  "getitem_quantity (Scalar x) i = Inl TypeError"
| "getitem_quantity (Array xs) i = getitem xs i"

section \<open>PowerLaw\<close>

record power_law =
  pl_m :: real
  vc_Rvir :: real
  Rvir :: real
  R_phi0 :: real

definition PowerLaw_init :: "real \<Rightarrow> real \<Rightarrow> real \<Rightarrow> real \<Rightarrow> power_law" where
  "PowerLaw_init m0 vc_Rvir0 Rvir0 R_phi0_to_Rvir =
     \<lparr>pl_m = m0, vc_Rvir = vc_Rvir0, Rvir = Rvir0, R_phi0 = R_phi0_to_Rvir * Rvir0\<rparr>"

definition PowerLaw_vc :: "'a power_law_scheme \<Rightarrow> real \<Rightarrow> real" where
  "PowerLaw_vc self r = vc_Rvir self * (r / Rvir self) powr pl_m self"

definition PowerLaw_Phi :: "'a power_law_scheme \<Rightarrow> real \<Rightarrow> real" where
  "PowerLaw_Phi self r =
     (if pl_m self \<noteq> 0 then
        - (vc_Rvir self)\<^sup>2 / (2 * pl_m self) *
          ((R_phi0 self / Rvir self) powr (2 * pl_m self) - (r / Rvir self) powr (2 * pl_m self))
      else - (vc_Rvir self)\<^sup>2 * ln (R_phi0 self / r))"

definition PowerLaw_dlnvc_dlnR :: "'a power_law_scheme \<Rightarrow> real \<Rightarrow> real" where
  "PowerLaw_dlnvc_dlnR self r = pl_m self"

record power_law_with_angular_momentum = power_law +
  Rcirc :: real

definition PowerLaw_with_AngularMomentum_init ::
  "real \<Rightarrow> real \<Rightarrow> real \<Rightarrow> real \<Rightarrow> power_law_with_angular_momentum" where
  "PowerLaw_with_AngularMomentum_init m0 vc_Rvir0 Rvir0 Rcirc0 =
     power_law.extend (PowerLaw_init m0 vc_Rvir0 Rvir0 10) \<lparr>Rcirc = Rcirc0\<rparr>"

definition PowerLaw_with_AngularMomentum_vc ::
  "power_law_with_angular_momentum \<Rightarrow> real \<Rightarrow> real" where
  "PowerLaw_with_AngularMomentum_vc self r =
     (let vc = PowerLaw_vc self r in vc * sqrt (1 - (Rcirc self / r)\<^sup>2))"

definition PowerLaw_with_AngularMomentum_dlnvc_dlnR ::
  "power_law_with_angular_momentum \<Rightarrow> real \<Rightarrow> real" where
  "PowerLaw_with_AngularMomentum_dlnvc_dlnR self r =
     (let dlnvc_dlnR = PowerLaw_dlnvc_dlnR self r
      in dlnvc_dlnR + inverse ((r / Rcirc self)\<^sup>2 - 1))"

section \<open>NFW\<close>

record nfw =
  fdr :: real
  Mvir :: real
  nfw_z :: real
  cvir :: real
  dr :: real
  rho_scale :: real

definition NFW_Delta_c :: "cosmology \<Rightarrow> 'a nfw_scheme \<Rightarrow> real" where
  "NFW_Delta_c env self =
     (let x = cosmo_Om env (nfw_z self) - 1 in 18 * pi\<^sup>2 + 82 * x - 39 * x\<^sup>2)"

definition NFW_rvir :: "cosmology \<Rightarrow> 'a nfw_scheme \<Rightarrow> real" where
  "NFW_rvir env self =
     (Mvir self / (4 / 3 * pi * NFW_Delta_c env self * cosmo_critical_density env (nfw_z self)))
       powr (1 / 3)"

definition NFW_r_scale :: "cosmology \<Rightarrow> 'a nfw_scheme \<Rightarrow> real" where
  "NFW_r_scale env self = NFW_rvir env self / cvir self"

definition NFW_rho2rho_scale :: "cosmology \<Rightarrow> 'a nfw_scheme \<Rightarrow> real \<Rightarrow> real" where
  "NFW_rho2rho_scale env self r =
     4 / ((r / NFW_r_scale env self) * (1 + r / NFW_r_scale env self)\<^sup>2)"

definition NFW_rho :: "cosmology \<Rightarrow> 'a nfw_scheme \<Rightarrow> real \<Rightarrow> real" where
  "NFW_rho env self r = rho_scale self * NFW_rho2rho_scale env self r"

definition NFW_enclosedMass :: "cosmology \<Rightarrow> 'a nfw_scheme \<Rightarrow> real \<Rightarrow> real" where
  "NFW_enclosedMass env self r =
     16 * pi * rho_scale self * NFW_r_scale env self ^ 3 *
       (ln (1 + r / NFW_r_scale env self) - inverse (NFW_r_scale env self / r + 1))"

definition NFW_v_vir :: "cosmology \<Rightarrow> 'a nfw_scheme \<Rightarrow> real" where
  "NFW_v_vir env self = sqrt (cons_G env * Mvir self / NFW_rvir env self)"

definition NFW_vc :: "cosmology \<Rightarrow> 'a nfw_scheme \<Rightarrow> real \<Rightarrow> real" where
  "NFW_vc env self r = (let Ms = NFW_enclosedMass env self r in sqrt (cons_G env * Ms / r))"

definition NFW_mean_enclosed_rho2rhocrit :: "cosmology \<Rightarrow> 'a nfw_scheme \<Rightarrow> real \<Rightarrow> real" where
  "NFW_mean_enclosed_rho2rhocrit env self r =
     (let Ms = NFW_enclosedMass env self r
      in Ms / (4 / 3 * pi * r ^ 3) / cosmo_critical_density env (nfw_z self))"

text \<open>
  The four overdensity radii. Each builds the grid, maps the mean enclosed density over
  it, searches the negated sequence and indexes the grid with the result.
\<close>

definition NFW_r200 :: "cosmology \<Rightarrow> nfw \<Rightarrow> real \<Rightarrow> py_error + real" where
  "NFW_r200 env self delta =
     (case arange (dr self) (2 * NFW_rvir env self) (dr self) of
        Inl e \<Rightarrow> Inl e
      | Inr rs \<Rightarrow>
          (let mean_rho2rhocrit = map (NFW_mean_enclosed_rho2rhocrit env self) rs
           in getitem rs (searchsorted (map uminus mean_rho2rhocrit) (- delta))))"

definition NFW_r500 :: "cosmology \<Rightarrow> nfw \<Rightarrow> real \<Rightarrow> py_error + real" where
  "NFW_r500 env self delta =
     (case arange (dr self) (2 * NFW_rvir env self) (dr self) of
        Inl e \<Rightarrow> Inl e
      | Inr rs \<Rightarrow>
          (let mean_rho2rhocrit = map (NFW_mean_enclosed_rho2rhocrit env self) rs
           in getitem rs (searchsorted (map uminus mean_rho2rhocrit) (- delta))))"

definition NFW_r200m :: "cosmology \<Rightarrow> nfw \<Rightarrow> real \<Rightarrow> py_error + real" where
  "NFW_r200m env self delta =
     (case arange (dr self) (2 * NFW_rvir env self) (dr self) of
        Inl e \<Rightarrow> Inl e
      | Inr rs \<Rightarrow>
          (let mean_rho2rhocrit = map (NFW_mean_enclosed_rho2rhocrit env self) rs
           in getitem rs (searchsorted (map uminus mean_rho2rhocrit)
                (- delta * cosmo_Om env (nfw_z self)))))"

definition NFW_r500m :: "cosmology \<Rightarrow> nfw \<Rightarrow> real \<Rightarrow> py_error + real" where
  "NFW_r500m env self delta =
     (case arange (dr self) (2 * NFW_rvir env self) (dr self) of
        Inl e \<Rightarrow> Inl e
      | Inr rs \<Rightarrow>
          (let mean_rho2rhocrit = map (NFW_mean_enclosed_rho2rhocrit env self) rs
           in getitem rs (searchsorted (map uminus mean_rho2rhocrit)
                (- delta * cosmo_Om env (nfw_z self)))))"

definition NFW_r_ta :: "cosmology \<Rightarrow> nfw \<Rightarrow> bool \<Rightarrow> py_error + real" where
  "NFW_r_ta env self use200m =
     (if \<not> use200m then Inr (2 * NFW_rvir env self)
      else map_sum id (\<lambda>r. 2 * r) (NFW_r200m env self 200))"

definition NFW_M200 :: "cosmology \<Rightarrow> nfw \<Rightarrow> real \<Rightarrow> py_error + real" where
  "NFW_M200 env self delta = map_sum id (NFW_enclosedMass env self) (NFW_r200 env self delta)"

definition NFW_M200m :: "cosmology \<Rightarrow> nfw \<Rightarrow> real \<Rightarrow> py_error + real" where
  "NFW_M200m env self delta = map_sum id (NFW_enclosedMass env self) (NFW_r200m env self delta)"

definition NFW_g :: "cosmology \<Rightarrow> nfw \<Rightarrow> real \<Rightarrow> real" where
  "NFW_g env self r = (let Ms = NFW_enclosedMass env self r in cons_G env * Ms / r\<^sup>2)"

definition NFW_t_ff :: "cosmology \<Rightarrow> nfw \<Rightarrow> real \<Rightarrow> real" where
  "NFW_t_ff env self r = sqrt 2 * r / NFW_vc env self r"

definition NFW_T200 :: "cosmology \<Rightarrow> nfw \<Rightarrow> py_error + real" where
  "NFW_T200 env self =
     map_sum id (\<lambda>r. 0.5 * mu * cons_m_p env * (NFW_vc env self r)\<^sup>2) (NFW_r200 env self 200)"

definition NFW_dlnvc_dlnR :: "cosmology \<Rightarrow> 'a nfw_scheme \<Rightarrow> real \<Rightarrow> real" where
  "NFW_dlnvc_dlnR env self r =
     (let A = NFW_r_scale env self + r;
          B = ln (A / NFW_r_scale env self)
      in 0.5 * (- r\<^sup>2 + A * (- r + A * B)) / (A * (r - A * B)))"

definition NFW_Phi :: "cosmology \<Rightarrow> 'a nfw_scheme \<Rightarrow> real \<Rightarrow> real" where
  "NFW_Phi env self r =
     - (16 * pi * cons_G env * rho_scale self * NFW_r_scale env self ^ 3 / r *
          ln (1 + r / NFW_r_scale env self))"

text \<open>
  The constructor. \<open>cvir\<close> is \<open>None\<close> by default and \<open>_fdr\<close> is 100 by default; the
  attributes \<open>dr\<close> and \<open>rho_scale\<close> do not exist before their assignment, and the record
  holds 0 there, which nothing reads. \<open>normalization_sum\<close> is the sum the constructor
  divides \<open>Mvir\<close> by.
\<close>

definition normalization_sum :: "cosmology \<Rightarrow> 'a nfw_scheme \<Rightarrow> real list \<Rightarrow> real" where
  "normalization_sum env self rs =
     sum_list (map (\<lambda>r. 4 * pi * r\<^sup>2 * dr self * NFW_rho2rho_scale env self r) rs)"

definition NFW_init :: "cosmology \<Rightarrow> real \<Rightarrow> real \<Rightarrow> real option \<Rightarrow> real \<Rightarrow> py_error + nfw" where
  "NFW_init env Mvir0 z0 cvir0 fdr0 =
     (let self1 = \<lparr>fdr = fdr0, Mvir = Mvir0, nfw_z = z0,
                   cvir = (case cvir0 of
                             None \<Rightarrow> 7.85 * (Mvir0 / (2 * 10 ^ 12) * h0 env) powr (- 0.081)
                                       * (1 + z0) powr (- 0.71)
                           | Some c \<Rightarrow> c),
                   dr = 0, rho_scale = 0\<rparr>;
          self2 = self1\<lparr>dr := NFW_r_scale env self1 / fdr self1\<rparr>
      in case arange (dr self2) (NFW_rvir env self2) (dr self2) of
           Inl e \<Rightarrow> Inl e
         | Inr rs \<Rightarrow> Inr (self2\<lparr>rho_scale := Mvir self2 / normalization_sum env self2 rs\<rparr>))"

section \<open>NFW\_withGalaxy\<close>

record nfw_with_galaxy = nfw +
  Mgalaxy :: real
  Rd :: real

definition NFW_withGalaxy_init ::
  "cosmology \<Rightarrow> real \<Rightarrow> real \<Rightarrow> real option \<Rightarrow> real \<Rightarrow> real \<Rightarrow> real \<Rightarrow> py_error + nfw_with_galaxy" where
  "NFW_withGalaxy_init env Mvir0 z0 cvir0 fdr0 Mgalaxy0 scale_length =
     map_sum id (\<lambda>self. nfw.extend self \<lparr>Mgalaxy = Mgalaxy0, Rd = scale_length\<rparr>)
       (NFW_init env Mvir0 z0 cvir0 fdr0)"

definition NFW_withGalaxy_enclosedMass_galaxy :: "nfw_with_galaxy \<Rightarrow> real \<Rightarrow> real" where
  "NFW_withGalaxy_enclosedMass_galaxy self r =
     (let factor = 1 - exp 1 powr (- (r / Rd self)) * (Rd self + r) / Rd self
      in factor * Mgalaxy self)"

definition NFW_withGalaxy_enclosedMass :: "cosmology \<Rightarrow> nfw_with_galaxy \<Rightarrow> real \<Rightarrow> real" where
  "NFW_withGalaxy_enclosedMass env self r =
     NFW_enclosedMass env self r + NFW_withGalaxy_enclosedMass_galaxy self r"

text \<open>The inherited \<open>vc\<close>, whose \<open>self.enclosedMass\<close> is the override.\<close>

definition NFW_withGalaxy_vc :: "cosmology \<Rightarrow> nfw_with_galaxy \<Rightarrow> real \<Rightarrow> real" where
  "NFW_withGalaxy_vc env self r =
     (let Ms = NFW_withGalaxy_enclosedMass env self r in sqrt (cons_G env * Ms / r))"

text \<open>
  \<open>dlnvc_dlnR\<close> at one radius: the six intermediate values that the method prints, in
  the order of the \<open>print\<close>, and the value it returns.
\<close>

definition NFW_withGalaxy_dlnvc_dlnR_terms ::
  "cosmology \<Rightarrow> nfw_with_galaxy \<Rightarrow> real \<Rightarrow> real list" where
  "NFW_withGalaxy_dlnvc_dlnR_terms env self r =
     (let vc2_halo = cons_G env * NFW_enclosedMass env self r / r;
          AA = vc2_halo / (NFW_withGalaxy_vc env self r)\<^sup>2;
          A = NFW_dlnvc_dlnR env self r;
          dvc2_glx_dr = (cons_G env * Mgalaxy self / r) / r *
             (exp 1 powr (- r / Rd self) * (r\<^sup>2 + (Rd self)\<^sup>2 + r * Rd self) / (Rd self)\<^sup>2 - 1);
          vc2_galaxy = cons_G env * NFW_withGalaxy_enclosedMass_galaxy self r / r;
          B = 0.5 * r * dvc2_glx_dr / vc2_galaxy;
          BB = vc2_galaxy / (NFW_withGalaxy_vc env self r)\<^sup>2
      in [sqrt vc2_halo, AA, A, sqrt vc2_galaxy, BB, B])"

definition NFW_withGalaxy_dlnvc_dlnR_value ::
  "cosmology \<Rightarrow> nfw_with_galaxy \<Rightarrow> real \<Rightarrow> real" where
  "NFW_withGalaxy_dlnvc_dlnR_value env self r =
     (let vc2_halo = cons_G env * NFW_enclosedMass env self r / r;
          AA = vc2_halo / (NFW_withGalaxy_vc env self r)\<^sup>2;
          A = NFW_dlnvc_dlnR env self r;
          dvc2_glx_dr = (cons_G env * Mgalaxy self / r) / r *
             (exp 1 powr (- r / Rd self) * (r\<^sup>2 + (Rd self)\<^sup>2 + r * Rd self) / (Rd self)\<^sup>2 - 1);
          vc2_galaxy = cons_G env * NFW_withGalaxy_enclosedMass_galaxy self r / r;
          B = 0.5 * r * dvc2_glx_dr / vc2_galaxy;
          BB = vc2_galaxy / (NFW_withGalaxy_vc env self r)\<^sup>2
      in A * AA + B * BB)"

text \<open>
  The method itself. Its arithmetic broadcasts over \<open>r\<close>; then it prints element 20 of
  six intermediate arrays, which raises on a scalar and on an array of 20 elements or
  fewer, and returns. The result holds the lines written to the standard output and the
  returned quantity.
\<close>

definition NFW_withGalaxy_dlnvc_dlnR ::
  "cosmology \<Rightarrow> nfw_with_galaxy \<Rightarrow> quantity \<Rightarrow> py_error + (real list list \<times> quantity)" where
  "NFW_withGalaxy_dlnvc_dlnR env self r =
     (case getitem_quantity r 20 of
        Inl e \<Rightarrow> Inl e
      | Inr r20 \<Rightarrow>
          Inr ([NFW_withGalaxy_dlnvc_dlnR_terms env self r20],
               broadcast (NFW_withGalaxy_dlnvc_dlnR_value env self) r))"

definition NFW_withGalaxy_Phi :: "cosmology \<Rightarrow> nfw_with_galaxy \<Rightarrow> real \<Rightarrow> real" where
  "NFW_withGalaxy_Phi env self r =
     NFW_Phi env self r + cons_G env * Mgalaxy self * (exp 1 powr (- (r / Rd self)) - 1) / r"

definition NFW_withGalaxy_mean_enclosed_rho2rhocrit ::
  "cosmology \<Rightarrow> nfw_with_galaxy \<Rightarrow> real \<Rightarrow> real" where
  "NFW_withGalaxy_mean_enclosed_rho2rhocrit env self r =
     (let Ms = NFW_enclosedMass env self r
      in Ms / (4 / 3 * pi * r ^ 3) / cosmo_critical_density env (nfw_z self))"

text \<open>
  The inherited \<open>r200\<close> and \<open>r200m\<close>, whose \<open>self.mean_enclosed_rho2rhocrit\<close> is the
  override.
\<close>

definition NFW_withGalaxy_r200 :: "cosmology \<Rightarrow> nfw_with_galaxy \<Rightarrow> real \<Rightarrow> py_error + real" where
  "NFW_withGalaxy_r200 env self delta =
     (case arange (dr self) (2 * NFW_rvir env self) (dr self) of
        Inl e \<Rightarrow> Inl e
      | Inr rs \<Rightarrow>
          (let mean_rho2rhocrit = map (NFW_withGalaxy_mean_enclosed_rho2rhocrit env self) rs
           in getitem rs (searchsorted (map uminus mean_rho2rhocrit) (- delta))))"

definition NFW_withGalaxy_r200m :: "cosmology \<Rightarrow> nfw_with_galaxy \<Rightarrow> real \<Rightarrow> py_error + real" where
  "NFW_withGalaxy_r200m env self delta =
     (case arange (dr self) (2 * NFW_rvir env self) (dr self) of
        Inl e \<Rightarrow> Inl e
      | Inr rs \<Rightarrow>
          (let mean_rho2rhocrit = map (NFW_withGalaxy_mean_enclosed_rho2rhocrit env self) rs
           in getitem rs (searchsorted (map uminus mean_rho2rhocrit)
                (- delta * cosmo_Om env (nfw_z self)))))"

definition NFW_withGalaxy_M200 :: "cosmology \<Rightarrow> nfw_with_galaxy \<Rightarrow> real \<Rightarrow> py_error + real" where
  "NFW_withGalaxy_M200 env self delta =
     map_sum id (NFW_enclosedMass env self) (NFW_withGalaxy_r200 env self delta)"

definition NFW_withGalaxy_M200m :: "cosmology \<Rightarrow> nfw_with_galaxy \<Rightarrow> real \<Rightarrow> py_error + real" where
  "NFW_withGalaxy_M200m env self delta =
     map_sum id (NFW_enclosedMass env self) (NFW_withGalaxy_r200m env self delta)"

section \<open>Notions of the specification\<close>

text \<open>
  The grid of the overdensity search as the specification words it: the radii from
  \<open>radial_step\<close> to \<open>2 * rvir\<close> in steps of \<open>radial_step\<close>, the end excluded; and
  the first radius of a grid at which the mean enclosed density is at or below a
  threshold.
\<close>

definition overdensity_grid :: "cosmology \<Rightarrow> 'a nfw_scheme \<Rightarrow> real list" where
  "overdensity_grid env self =
     map (\<lambda>i. dr self + real i * dr self)
       [0..<nat \<lceil>(2 * NFW_rvir env self - dr self) / dr self\<rceil>]"

definition first_crossing :: "cosmology \<Rightarrow> 'a nfw_scheme \<Rightarrow> real \<Rightarrow> real option" where
  "first_crossing env self threshold =
     find (\<lambda>r. NFW_mean_enclosed_rho2rhocrit env self r \<le> threshold) (overdensity_grid env self)"

text \<open>
  The discretized mass integral of the normalization identity: the sum of
  \<open>4 \<pi> r\<^sup>2 \<cdot> radial_step \<cdot> rho_scale \<cdot> f(r)\<close> over the radii from \<open>radial_step\<close> to
  \<open>rvir\<close> in steps of \<open>radial_step\<close>, with \<open>radial_step = r_scale / fdr\<close>.
\<close>

definition normalization_grid :: "cosmology \<Rightarrow> 'a nfw_scheme \<Rightarrow> real list" where
  "normalization_grid env self =
     map (\<lambda>i. NFW_r_scale env self / fdr self + real i * (NFW_r_scale env self / fdr self))
       [0..<nat \<lceil>(NFW_rvir env self - NFW_r_scale env self / fdr self)
                    / (NFW_r_scale env self / fdr self)\<rceil>]"

definition discretized_mass :: "cosmology \<Rightarrow> 'a nfw_scheme \<Rightarrow> real" where
  "discretized_mass env self =
     (\<Sum>r\<leftarrow>normalization_grid env self.
        4 * pi * r\<^sup>2 * (NFW_r_scale env self / fdr self) * rho_scale self
          * (4 / ((r / NFW_r_scale env self) * (1 + r / NFW_r_scale env self)\<^sup>2)))"

text \<open>
  The logarithm of the circular velocity \<open>vc(r) = sqrt (G \<cdot> enclosedMass(r) / r)\<close> as a
  function of \<open>u = ln r\<close>; its derivative in \<open>u\<close> is \<open>d(ln vc)/d(ln r)\<close>.
\<close>

definition ln_vc_of_ln_r :: "cosmology \<Rightarrow> 'a nfw_scheme \<Rightarrow> real \<Rightarrow> real" where
  "ln_vc_of_ln_r env self u = ln (NFW_vc env self (exp u))"

text \<open>
  The dimensionless functions behind the NFW formulas, in \<open>x = r / r_scale\<close>: the
  enclosed-mass shape \<open>ln (1 + x) - x / (1 + x)\<close>, the mean-density shape, and the
  numerator of the derivative of the latter.
\<close>

definition nfw_shape :: "real \<Rightarrow> real" where
  "nfw_shape x = ln (1 + x) - x / (1 + x)"

definition mean_shape :: "real \<Rightarrow> real" where
  "mean_shape x = nfw_shape x / x ^ 3"

definition slope_gap :: "real \<Rightarrow> real" where
  "slope_gap x = x\<^sup>2 / (1 + x)\<^sup>2 - 3 * nfw_shape x"

text \<open>
  An environment and a halo to evaluate on: a cosmology with \<open>\<Omega>m = 1\<close> and unit critical
  density, and the halo that the constructor returns there for \<open>Mvir = 24 \<pi>\<^sup>3\<close>, \<open>cvir = 1\<close>
  and \<open>fdr = 2\<close>; it has \<open>rvir = 1\<close>.
\<close>

definition env_unit :: cosmology where
  "env_unit = \<lparr>cons_G = 1, cons_m_p = 1, cosmo_H0 = 100,
                cosmo_Om = (\<lambda>z. 1), cosmo_critical_density = (\<lambda>z. 1)\<rparr>"

definition halo_unit :: nfw where
  "halo_unit = \<lparr>fdr = 2, Mvir = 24 * pi ^ 3, nfw_z = 0, cvir = 1, dr = 1 / 2,
                 rho_scale = 27 * pi\<^sup>2 / 2\<rparr>"

section \<open>The numpy search on a sorted sequence\<close>

lemma binsearch_left_sorted:
  assumes "sorted arr" "lo \<le> hi" "hi \<le> length arr"
    and "\<forall>i<lo. arr ! i < key"
    and "\<forall>i. hi \<le> i \<and> i < length arr \<longrightarrow> key \<le> arr ! i"
  shows "binsearch_left arr key lo hi \<le> length arr
       \<and> (\<forall>i<binsearch_left arr key lo hi. arr ! i < key)
       \<and> (\<forall>i. binsearch_left arr key lo hi \<le> i \<and> i < length arr \<longrightarrow> key \<le> arr ! i)"
  using assms
proof (induction arr key lo hi rule: binsearch_left.induct)
  case (1 arr key lo hi)
  show ?case
  proof (cases "lo < hi")
    case False
    with "1.prems" have "lo = hi" by simp
    with "1.prems" show ?thesis
      by (simp add: binsearch_left.simps [of arr key hi hi])
  next
    case True
    define mid where "mid = lo + (hi - lo) div 2"
    have mid: "lo \<le> mid" "mid < hi" using True by (auto simp: mid_def)
    show ?thesis
    proof (cases "arr ! mid < key")
      case less: True
      have below: "\<forall>i<mid + 1. arr ! i < key"
      proof (intro allI impI)
        fix i assume "i < mid + 1"
        then have "i \<le> mid" by simp
        moreover have "mid < length arr" using mid "1.prems"(3) by simp
        ultimately have "arr ! i \<le> arr ! mid"
          using "1.prems"(1) by (simp add: sorted_nth_mono)
        with less show "arr ! i < key" by simp
      qed
      have "binsearch_left arr key lo hi = binsearch_left arr key (mid + 1) hi"
        using True less by (subst binsearch_left.simps) (simp add: mid_def Let_def)
      moreover have "binsearch_left arr key (mid + 1) hi \<le> length arr
         \<and> (\<forall>i<binsearch_left arr key (mid + 1) hi. arr ! i < key)
         \<and> (\<forall>i. binsearch_left arr key (mid + 1) hi \<le> i \<and> i < length arr \<longrightarrow> key \<le> arr ! i)"
        using "1.IH"(1) [OF True mid_def less "1.prems"(1) _ "1.prems"(3) below "1.prems"(5)] mid
        by simp
      ultimately show ?thesis by simp
    next
      case geq: False
      have above: "\<forall>i. mid \<le> i \<and> i < length arr \<longrightarrow> key \<le> arr ! i"
      proof (intro allI impI)
        fix i assume "mid \<le> i \<and> i < length arr"
        then have "arr ! mid \<le> arr ! i"
          using "1.prems"(1) by (simp add: sorted_nth_mono)
        with geq show "key \<le> arr ! i" by simp
      qed
      have "binsearch_left arr key lo hi = binsearch_left arr key lo mid"
        using True geq by (subst binsearch_left.simps) (simp add: mid_def Let_def)
      moreover have "binsearch_left arr key lo mid \<le> length arr
         \<and> (\<forall>i<binsearch_left arr key lo mid. arr ! i < key)
         \<and> (\<forall>i. binsearch_left arr key lo mid \<le> i \<and> i < length arr \<longrightarrow> key \<le> arr ! i)"
        using "1.IH"(2) [OF True mid_def geq "1.prems"(1) mid(1) _ "1.prems"(4) above] mid "1.prems"(3)
        by simp
      ultimately show ?thesis by simp
    qed
  qed
qed

lemma binsearch_left_all_below:
  assumes "\<forall>i<hi. arr ! i < key" "lo \<le> hi"
  shows "binsearch_left arr key lo hi = hi"
  using assms
proof (induction arr key lo hi rule: binsearch_left.induct)
  case (1 arr key lo hi)
  show ?case
  proof (cases "lo < hi")
    case False
    with "1.prems" have "lo = hi" by simp
    then show ?thesis by (simp add: binsearch_left.simps [of arr key hi hi])
  next
    case True
    define mid where "mid = lo + (hi - lo) div 2"
    have mid: "lo \<le> mid" "mid < hi" using True by (auto simp: mid_def)
    then have less: "arr ! mid < key" using "1.prems" by simp
    have "binsearch_left arr key lo hi = binsearch_left arr key (mid + 1) hi"
      using True less by (subst binsearch_left.simps) (simp add: mid_def Let_def)
    also have "\<dots> = hi"
      using "1.IH"(1) [OF True mid_def less "1.prems"(1)] mid by simp
    finally show ?thesis .
  qed
qed

lemma searchsorted_find:
  assumes "sorted (map uminus (map f rs))"
  shows "getitem rs (searchsorted (map uminus (map f rs)) (- t))
           = (case find (\<lambda>r. f r \<le> t) rs of Some r \<Rightarrow> Inr r | None \<Rightarrow> Inl IndexError)"
proof -
  define arr where "arr = map uminus (map f rs)"
  define k where "k = searchsorted arr (- t)"
  have len: "length arr = length rs" by (simp add: arr_def)
  have nth: "\<And>i. i < length rs \<Longrightarrow> arr ! i = - f (rs ! i)" by (simp add: arr_def)
  have spec: "k \<le> length arr \<and> (\<forall>i<k. arr ! i < - t)
       \<and> (\<forall>i. k \<le> i \<and> i < length arr \<longrightarrow> - t \<le> arr ! i)"
    unfolding k_def searchsorted_def
    using assms by (intro binsearch_left_sorted) (simp_all add: arr_def)
  then have k_le: "k \<le> length rs"
    and below: "\<And>i. i < k \<Longrightarrow> t < f (rs ! i)"
    and above: "\<And>i. k \<le> i \<Longrightarrow> i < length rs \<Longrightarrow> f (rs ! i) \<le> t"
    using len nth by (auto simp: not_le)
  show ?thesis
  proof (cases "k < length rs")
    case True
    have "find (\<lambda>r. f r \<le> t) rs = Some (rs ! k)"
      unfolding find_Some_iff
      using True above [of k] below by (intro exI [of _ k]) (auto simp: not_le)
    then show ?thesis
      using True by (simp add: getitem_def k_def arr_def)
  next
    case False
    with k_le have "k = length rs" by simp
    then have "find (\<lambda>r. f r \<le> t) rs = None"
      unfolding find_None_iff using below by (auto simp: in_set_conv_nth not_le)
    then show ?thesis
      using False by (simp add: getitem_def k_def arr_def)
  qed
qed

lemma searchsorted_no_crossing:
  assumes "\<forall>r\<in>set rs. t < f r"
  shows "getitem rs (searchsorted (map uminus (map f rs)) (- t)) = Inl IndexError"
proof -
  have "\<forall>i<length (map uminus (map f rs)). map uminus (map f rs) ! i < - t"
    using assms by simp
  then have "searchsorted (map uminus (map f rs)) (- t) = length rs"
    unfolding searchsorted_def
    using binsearch_left_all_below [of "length (map uminus (map f rs))" "map uminus (map f rs)" "- t" 0]
    by simp
  then show ?thesis by (simp add: getitem_def)
qed

section \<open>The NFW shape functions\<close>

lemma nfw_shape_deriv:
  assumes "0 \<le> x"
  shows "(nfw_shape has_real_derivative x / (1 + x)\<^sup>2) (at x)"
proof -
  define u where "u = 1 + x"
  have u: "0 < u" using assms by (simp add: u_def)
  have "((\<lambda>x. ln (1 + x) - x / (1 + x)) has_real_derivative
          (1 / (1 + x) - ((1 + x) - x) / ((1 + x) * (1 + x)))) (at x)"
    using assms by (auto intro!: derivative_eq_intros)
  moreover have "1 / (1 + x) - ((1 + x) - x) / ((1 + x) * (1 + x)) = x / (1 + x)\<^sup>2"
  proof -
    have "1 / u - 1 / (u * u) = (u - 1) / u\<^sup>2"
      using u by (simp add: field_simps power2_eq_square)
    then show ?thesis by (simp add: u_def)
  qed
  ultimately show ?thesis
    unfolding nfw_shape_def [abs_def] by simp
qed

lemma slope_gap_deriv:
  assumes "0 \<le> x"
  shows "(slope_gap has_real_derivative - (x + 3 * x\<^sup>2) / (1 + x) ^ 3) (at x)"
proof -
  define u where "u = 1 + x"
  have u: "0 < u" using assms by (simp add: u_def)
  have x: "x = u - 1" by (simp add: u_def)
  have "((\<lambda>x. x\<^sup>2 / (1 + x)\<^sup>2 - 3 * nfw_shape x) has_real_derivative
          ((2 * x * (1 + x)\<^sup>2 - x\<^sup>2 * (2 * (1 + x))) / ((1 + x)\<^sup>2 * (1 + x)\<^sup>2)
            - 3 * (x / (1 + x)\<^sup>2))) (at x)"
    using assms by (auto intro!: derivative_eq_intros nfw_shape_deriv)
  moreover have "(2 * x * (1 + x)\<^sup>2 - x\<^sup>2 * (2 * (1 + x))) / ((1 + x)\<^sup>2 * (1 + x)\<^sup>2)
            - 3 * (x / (1 + x)\<^sup>2) = - (x + 3 * x\<^sup>2) / (1 + x) ^ 3"
  proof -
    have "(2 * (u - 1) * u\<^sup>2 - (u - 1)\<^sup>2 * (2 * u)) / (u\<^sup>2 * u\<^sup>2) - 3 * ((u - 1) / u\<^sup>2)
            = - ((u - 1) + 3 * (u - 1)\<^sup>2) / u ^ 3"
      using u by (simp add: field_simps power2_eq_square power3_eq_cube)
    then show ?thesis unfolding x by (simp add: u_def)
  qed
  ultimately show ?thesis
    unfolding slope_gap_def [abs_def] by simp
qed

lemma mean_shape_deriv:
  assumes "0 < x"
  shows "(mean_shape has_real_derivative slope_gap x / x ^ 4) (at x)"
proof -
  have "((\<lambda>x. nfw_shape x / x ^ 3) has_real_derivative
          ((x / (1 + x)\<^sup>2) * x ^ 3 - nfw_shape x * (3 * x\<^sup>2)) / (x ^ 3 * x ^ 3)) (at x)"
    using assms by (auto intro!: derivative_eq_intros nfw_shape_deriv)
  moreover have "((x / (1 + x)\<^sup>2) * x ^ 3 - nfw_shape x * (3 * x\<^sup>2)) / (x ^ 3 * x ^ 3)
      = slope_gap x / x ^ 4"
  proof -
    define s where "s = nfw_shape x"
    define q where "q = x / (1 + x)\<^sup>2"
    have "slope_gap x = x * q - 3 * s"
      by (simp add: slope_gap_def s_def q_def power2_eq_square)
    moreover have "(q * x ^ 3 - s * (3 * x\<^sup>2)) / (x ^ 3 * x ^ 3) = (x * q - 3 * s) / x ^ 4"
      using assms by (simp add: field_simps power2_eq_square power3_eq_cube power4_eq_xxxx)
    ultimately show ?thesis by (simp add: s_def q_def)
  qed
  ultimately show ?thesis
    unfolding mean_shape_def [abs_def] by simp
qed

lemma slope_gap_deriv_neg:
  fixes t :: real
  assumes "0 < t"
  shows "- (t + 3 * t\<^sup>2) / (1 + t) ^ 3 < 0"
proof -
  have "0 < t + 3 * t\<^sup>2" using assms by (simp add: add_pos_nonneg)
  moreover have "0 < (1 + t) ^ 3" using assms by simp
  ultimately show ?thesis by (simp add: divide_neg_pos)
qed

lemma nfw_shape_pos:
  assumes "0 < x"
  shows "0 < nfw_shape x"
  using ln_add1_gt [OF assms] by (simp add: nfw_shape_def add.commute)

lemma slope_gap_zero: "slope_gap 0 = 0"
  by (simp add: slope_gap_def nfw_shape_def)

lemma slope_gap_neg:
  assumes "0 < x"
  shows "slope_gap x < 0"
proof -
  have "slope_gap x < slope_gap 0"
  proof (rule DERIV_neg_imp_decreasing_open [OF assms])
    fix t :: real
    assume t: "0 < t" "t < x"
    from t(1) have "0 \<le> t" by simp
    then have "(slope_gap has_real_derivative - (t + 3 * t\<^sup>2) / (1 + t) ^ 3) (at t)"
      by (rule slope_gap_deriv)
    then show "\<exists>y. (slope_gap has_real_derivative y) (at t) \<and> y < 0"
      using slope_gap_deriv_neg [OF t(1)] by blast
  next
    show "continuous_on {0..x} slope_gap"
    proof (rule DERIV_continuous_on [where D = "\<lambda>t. - (t + 3 * t\<^sup>2) / (1 + t) ^ 3"])
      fix t :: real
      assume "t \<in> {0..x}"
      then have "0 \<le> t" by simp
      then have "(slope_gap has_real_derivative - (t + 3 * t\<^sup>2) / (1 + t) ^ 3) (at t)"
        by (rule slope_gap_deriv)
      then show "(slope_gap has_real_derivative - (t + 3 * t\<^sup>2) / (1 + t) ^ 3) (at t within {0..x})"
        by (rule has_field_derivative_at_within)
    qed
  qed
  then show ?thesis by (simp only: slope_gap_zero)
qed

lemma mean_shape_decreasing:
  assumes "0 < a" "a < b"
  shows "mean_shape b < mean_shape a"
proof (rule DERIV_neg_imp_decreasing [OF assms(2)])
  fix t :: real
  assume t: "a \<le> t" "t \<le> b"
  with assms have pos: "0 < t" by simp
  have "(mean_shape has_real_derivative slope_gap t / t ^ 4) (at t)"
    using pos by (rule mean_shape_deriv)
  moreover have "slope_gap t / t ^ 4 < 0"
    using slope_gap_neg [OF pos] pos by (intro divide_neg_pos) simp_all
  ultimately show "\<exists>y. (mean_shape has_real_derivative y) (at t) \<and> y < 0" by blast
qed

section \<open>Positivity and the formulas in terms of the shape functions\<close>

lemma exp1_powr: "exp 1 powr x = exp (x::real)"
  by (simp add: powr_def)

lemma pi_ge_3: "3 \<le> pi"
proof -
  have "sin (pi / 6) \<le> pi / 6" by (intro sin_x_le_x) simp
  then show ?thesis by (simp add: sin_30)
qed

lemma NFW_Delta_c_pos:
  assumes "0 \<le> cosmo_Om env (nfw_z self)" "cosmo_Om env (nfw_z self) \<le> 1"
  shows "0 < NFW_Delta_c env self"
proof -
  define x where "x = cosmo_Om env (nfw_z self) - 1"
  have x: "- 1 \<le> x" "x \<le> 0" using assms by (simp_all add: x_def)
  have "x\<^sup>2 \<le> 1" using x by (simp add: abs_square_le_1 abs_le_iff)
  moreover have "3\<^sup>2 \<le> pi\<^sup>2" using pi_ge_3 by (intro power_mono) simp_all
  ultimately have "0 < 18 * pi\<^sup>2 + 82 * x - 39 * x\<^sup>2" using x by simp
  then show ?thesis by (simp add: NFW_Delta_c_def x_def Let_def)
qed

lemma NFW_rvir_pos:
  assumes "0 < Mvir self" "0 < cosmo_critical_density env (nfw_z self)"
    and "0 \<le> cosmo_Om env (nfw_z self)" "cosmo_Om env (nfw_z self) \<le> 1"
  shows "0 < NFW_rvir env self"
  using assms NFW_Delta_c_pos [OF assms(3,4)] by (simp add: NFW_rvir_def)

lemma NFW_r_scale_pos:
  assumes "0 < Mvir self" "0 < cvir self" "0 < cosmo_critical_density env (nfw_z self)"
    and "0 \<le> cosmo_Om env (nfw_z self)" "cosmo_Om env (nfw_z self) \<le> 1"
  shows "0 < NFW_r_scale env self"
  using NFW_rvir_pos [OF assms(1,3,4,5)] assms(2) by (simp add: NFW_r_scale_def)

lemma NFW_enclosedMass_shape:
  assumes "0 < NFW_r_scale env self" "0 < r"
  shows "NFW_enclosedMass env self r
           = 16 * pi * rho_scale self * NFW_r_scale env self ^ 3 * nfw_shape (r / NFW_r_scale env self)"
proof -
  define s where "s = NFW_r_scale env self"
  have s: "0 < s" using assms by (simp add: s_def)
  have "inverse (s / r + 1) = (r / s) / (1 + r / s)"
    using s assms(2) by (simp add: field_simps)
  then show ?thesis
    by (simp add: NFW_enclosedMass_def nfw_shape_def s_def)
qed

lemma NFW_mean_shape:
  assumes "0 < NFW_r_scale env self" "0 < r"
  shows "NFW_mean_enclosed_rho2rhocrit env self r
           = 12 * rho_scale self / cosmo_critical_density env (nfw_z self)
               * mean_shape (r / NFW_r_scale env self)"
proof -
  define s where "s = NFW_r_scale env self"
  have s: "0 < s" using assms by (simp add: s_def)
  define c where "c = cosmo_critical_density env (nfw_z self)"
  have eq: "16 * pi * rho_scale self * s ^ 3 * nfw_shape (r / s) / (4 / 3 * pi * r ^ 3)
          = 12 * rho_scale self * mean_shape (r / s)"
    unfolding mean_shape_def using s assms(2) by (simp add: field_simps)
  have "NFW_mean_enclosed_rho2rhocrit env self r
          = 16 * pi * rho_scale self * s ^ 3 * nfw_shape (r / s) / (4 / 3 * pi * r ^ 3) / c"
    unfolding NFW_mean_enclosed_rho2rhocrit_def Let_def NFW_enclosedMass_shape [OF assms]
    by (simp only: s_def c_def)
  also have "\<dots> = 12 * rho_scale self * mean_shape (r / s) / c"
    by (simp only: eq)
  finally show ?thesis by (simp add: s_def c_def)
qed

lemma NFW_mean_pos:
  assumes "0 < Mvir self" "0 < cvir self" "0 < rho_scale self"
    and "0 < cosmo_critical_density env (nfw_z self)"
    and "0 \<le> cosmo_Om env (nfw_z self)" "cosmo_Om env (nfw_z self) \<le> 1"
    and "0 < r"
  shows "0 < NFW_mean_enclosed_rho2rhocrit env self r"
proof -
  have s: "0 < NFW_r_scale env self"
    using assms by (intro NFW_r_scale_pos)
  then have x: "0 < r / NFW_r_scale env self" using assms(7) by simp
  then have "0 < nfw_shape (r / NFW_r_scale env self)" by (rule nfw_shape_pos)
  moreover have "0 < (r / NFW_r_scale env self) ^ 3" using x by simp
  ultimately have "0 < mean_shape (r / NFW_r_scale env self)"
    unfolding mean_shape_def by (rule divide_pos_pos)
  then show ?thesis
    unfolding NFW_mean_shape [OF s assms(7)] using assms(3,4) by simp
qed

lemma NFW_mean_decreasing:
  assumes "0 < Mvir self" "0 < cvir self" "0 < rho_scale self"
    and "0 < cosmo_critical_density env (nfw_z self)"
    and "0 \<le> cosmo_Om env (nfw_z self)" "cosmo_Om env (nfw_z self) \<le> 1"
    and "0 < r1" "r1 < r2"
  shows "NFW_mean_enclosed_rho2rhocrit env self r2 < NFW_mean_enclosed_rho2rhocrit env self r1"
proof -
  have s: "0 < NFW_r_scale env self"
    using assms by (intro NFW_r_scale_pos)
  have r2: "0 < r2" using assms(7,8) by simp
  have "0 < r1 / NFW_r_scale env self" "r1 / NFW_r_scale env self < r2 / NFW_r_scale env self"
    using s assms(7,8) by (simp_all add: divide_strict_right_mono)
  then have "mean_shape (r2 / NFW_r_scale env self) < mean_shape (r1 / NFW_r_scale env self)"
    by (rule mean_shape_decreasing)
  moreover have "0 < 12 * rho_scale self / cosmo_critical_density env (nfw_z self)"
    using assms(3,4) by simp
  ultimately show ?thesis
    unfolding NFW_mean_shape [OF s assms(7)] NFW_mean_shape [OF s r2]
    by (simp only: mult_strict_left_mono)
qed

text \<open>
  C4. For an NFW halo with \<open>Mvir > 0\<close>, \<open>cvir > 0\<close> and \<open>rho_scale > 0\<close> (in a cosmology with a
  positive critical density and \<open>0 \<le> \<Omega>m(z) \<le> 1\<close>), \<open>mean_enclosed_rho2rhocrit\<close> is strictly
  decreasing in \<open>r\<close> on \<open>(0, 2 * rvir]\<close>.
\<close>

theorem NFW_mean_enclosed_rho2rhocrit_strictly_decreasing:
  assumes "0 < Mvir self" "0 < cvir self" "0 < rho_scale self"
    and "0 < cosmo_critical_density env (nfw_z self)"
    and "0 \<le> cosmo_Om env (nfw_z self)" "cosmo_Om env (nfw_z self) \<le> 1"
    and "0 < r1" "r1 < r2" "r2 \<le> 2 * NFW_rvir env self"
  shows "NFW_mean_enclosed_rho2rhocrit env self r2 < NFW_mean_enclosed_rho2rhocrit env self r1"
  using assms(1-8) by (rule NFW_mean_decreasing)

lemma NFW_rvir_unit: "NFW_rvir env_unit halo_unit = 1"
proof -
  have "24 * pi ^ 3 / (4 / 3 * pi * (18 * pi\<^sup>2)) = 1"
    by (simp add: power2_eq_square power3_eq_cube)
  then show ?thesis
    by (simp add: NFW_rvir_def NFW_Delta_c_def env_unit_def halo_unit_def)
qed

theorem NFW_mean_enclosed_rho2rhocrit_strictly_decreasing_witness:
  "NFW_mean_enclosed_rho2rhocrit env_unit halo_unit 1
     < NFW_mean_enclosed_rho2rhocrit env_unit halo_unit (1 / 2)"
proof -
  have "(1::real) \<le> 2 * NFW_rvir env_unit halo_unit"
    by (simp add: NFW_rvir_unit)
  then show ?thesis
    by (intro NFW_mean_enclosed_rho2rhocrit_strictly_decreasing)
       (simp_all add: env_unit_def halo_unit_def)
qed

lemma arange_overdensity_grid:
  assumes "dr self \<noteq> 0"
  shows "arange (dr self) (2 * NFW_rvir env self) (dr self) = Inr (overdensity_grid env self)"
  using assms by (simp add: arange_def overdensity_grid_def)

lemma overdensity_grid_nth:
  assumes "i < length (overdensity_grid env self)"
  shows "overdensity_grid env self ! i = dr self + real i * dr self"
  using assms by (simp add: overdensity_grid_def)

lemma overdensity_grid_pos:
  assumes "0 < dr self" "r \<in> set (overdensity_grid env self)"
  shows "0 < r"
proof -
  from assms(2) obtain i where "r = dr self + real i * dr self"
    by (auto simp: overdensity_grid_def)
  moreover have "0 \<le> real i * dr self" using assms(1) by simp
  ultimately show ?thesis using assms(1) by (simp add: add_pos_nonneg)
qed

lemma negated_means_sorted:
  assumes "0 < Mvir self" "0 < cvir self" "0 < rho_scale self"
    and "0 < cosmo_critical_density env (nfw_z self)"
    and "0 \<le> cosmo_Om env (nfw_z self)" "cosmo_Om env (nfw_z self) \<le> 1"
    and "0 < dr self"
  shows "sorted (map uminus (map (NFW_mean_enclosed_rho2rhocrit env self) (overdensity_grid env self)))"
  unfolding sorted_iff_nth_mono
proof (intro allI impI)
  fix i j :: nat
  let ?g = "overdensity_grid env self"
  let ?f = "NFW_mean_enclosed_rho2rhocrit env self"
  assume ij: "i \<le> j" and "j < length (map uminus (map ?f ?g))"
  then have j: "j < length ?g" and i: "i < length ?g" by simp_all
  have "?f (?g ! j) \<le> ?f (?g ! i)"
  proof (cases "i = j")
    case True
    then show ?thesis by simp
  next
    case False
    with ij have "real i < real j" by simp
    then have "real i * dr self < real j * dr self"
      using assms(7) by (simp add: mult_strict_right_mono)
    then have lt: "?g ! i < ?g ! j"
      by (simp add: overdensity_grid_nth [OF i] overdensity_grid_nth [OF j])
    have "?g ! i \<in> set ?g" using i by simp
    with assms(7) have "0 < ?g ! i" by (rule overdensity_grid_pos)
    with assms(1-6) have "?f (?g ! j) < ?f (?g ! i)"
      using lt by (rule NFW_mean_decreasing)
    then show ?thesis by simp
  qed
  then show "map uminus (map ?f ?g) ! i \<le> map uminus (map ?f ?g) ! j"
    using i j by simp
qed

lemma overdensity_search:
  assumes "0 < Mvir self" "0 < cvir self" "0 < rho_scale self"
    and "0 < cosmo_critical_density env (nfw_z self)"
    and "0 \<le> cosmo_Om env (nfw_z self)" "cosmo_Om env (nfw_z self) \<le> 1"
    and "0 < dr self"
  shows "getitem (overdensity_grid env self)
           (searchsorted (map uminus (map (NFW_mean_enclosed_rho2rhocrit env self)
              (overdensity_grid env self))) (- t))
       = (case first_crossing env self t of Some r \<Rightarrow> Inr r | None \<Rightarrow> Inl IndexError)"
  unfolding first_crossing_def
  using negated_means_sorted [OF assms] by (rule searchsorted_find)

text \<open>
  C3. When a crossing exists on the grid from \<open>radial_step\<close> to \<open>2 * rvir\<close>, \<open>r200(delta)\<close> is
  the first grid radius whose mean enclosed density is at or below \<open>delta\<close>, \<open>r200m(delta)\<close> the
  first one at or below \<open>delta * \<Omega>m(z)\<close>, both grid radii themselves, and \<open>M200\<close>, \<open>M200m\<close> are
  the enclosed mass there.
\<close>

theorem NFW_r200_first_grid_crossing:
  assumes "0 < Mvir self" "0 < cvir self" "0 < rho_scale self"
    and "0 < cosmo_critical_density env (nfw_z self)"
    and "0 \<le> cosmo_Om env (nfw_z self)" "cosmo_Om env (nfw_z self) \<le> 1"
    and "0 < dr self"
  shows "(first_crossing env self delta = Some r \<longrightarrow>
            r \<in> set (overdensity_grid env self)
          \<and> NFW_r200 env self delta = Inr r
          \<and> NFW_M200 env self delta = Inr (NFW_enclosedMass env self r))
       \<and> (first_crossing env self (delta * cosmo_Om env (nfw_z self)) = Some r' \<longrightarrow>
            r' \<in> set (overdensity_grid env self)
          \<and> NFW_r200m env self delta = Inr r'
          \<and> NFW_M200m env self delta = Inr (NFW_enclosedMass env self r'))"
proof -
  have ne: "dr self \<noteq> 0" using assms(7) by simp
  have a: "NFW_r200 env self delta
      = (case first_crossing env self delta of Some r \<Rightarrow> Inr r | None \<Rightarrow> Inl IndexError)"
    unfolding NFW_r200_def arange_overdensity_grid [OF ne]
    using overdensity_search [OF assms] by (simp add: Let_def)
  have b: "NFW_r200m env self delta
      = (case first_crossing env self (delta * cosmo_Om env (nfw_z self)) of
           Some r \<Rightarrow> Inr r | None \<Rightarrow> Inl IndexError)"
    unfolding NFW_r200m_def arange_overdensity_grid [OF ne]
    using overdensity_search [OF assms, of "delta * cosmo_Om env (nfw_z self)"]
    by (simp add: Let_def)
  have c: "\<And>t x. first_crossing env self t = Some x \<Longrightarrow> x \<in> set (overdensity_grid env self)"
    unfolding first_crossing_def find_Some_iff by auto
  show ?thesis
    using a b c by (auto simp: NFW_M200_def NFW_M200m_def)
qed

text \<open>
  C8. When the threshold is below the mean enclosed density at every grid point, the search
  returns the length of the grid, the read is out of range, and the IndexError leaves
  \<open>r200\<close>, \<open>r500\<close>, \<open>r200m\<close> and \<open>r500m\<close> uncaught.
\<close>

theorem overdensity_radius_no_crossing:
  assumes "dr self \<noteq> 0"
  shows "((\<forall>r\<in>set (overdensity_grid env self). delta < NFW_mean_enclosed_rho2rhocrit env self r) \<longrightarrow>
            NFW_r200 env self delta = Inl IndexError \<and> NFW_r500 env self delta = Inl IndexError)
       \<and> ((\<forall>r\<in>set (overdensity_grid env self).
              delta * cosmo_Om env (nfw_z self) < NFW_mean_enclosed_rho2rhocrit env self r) \<longrightarrow>
            NFW_r200m env self delta = Inl IndexError \<and> NFW_r500m env self delta = Inl IndexError)"
proof -
  let ?g = "overdensity_grid env self"
  let ?f = "NFW_mean_enclosed_rho2rhocrit env self"
  have key: "- delta * cosmo_Om env (nfw_z self) = - (delta * cosmo_Om env (nfw_z self))"
    by simp
  have a: "NFW_r200 env self delta = Inl IndexError \<and> NFW_r500 env self delta = Inl IndexError"
    if "\<forall>r\<in>set ?g. delta < ?f r"
    unfolding NFW_r200_def NFW_r500_def arange_overdensity_grid [OF assms]
    by (simp only: sum.case Let_def searchsorted_no_crossing [OF that])
  have b: "NFW_r200m env self delta = Inl IndexError \<and> NFW_r500m env self delta = Inl IndexError"
    if "\<forall>r\<in>set ?g. delta * cosmo_Om env (nfw_z self) < ?f r"
    unfolding NFW_r200m_def NFW_r500m_def arange_overdensity_grid [OF assms]
    by (simp only: sum.case Let_def key searchsorted_no_crossing [OF that])
  show ?thesis using a b by blast
qed

lemma overdensity_grid_unit: "overdensity_grid env_unit halo_unit = [1 / 2, 1, 3 / 2]"
proof -
  have "[0..<3] = [0, 1, 2]" by (simp add: upt_rec)
  then show ?thesis
    by (simp add: overdensity_grid_def NFW_rvir_unit) (simp add: halo_unit_def)
qed

theorem NFW_r200_first_grid_crossing_witness:
  "NFW_r200 env_unit halo_unit (NFW_mean_enclosed_rho2rhocrit env_unit halo_unit (1 / 2)) = Inr (1 / 2)
 \<and> NFW_r200m env_unit halo_unit (NFW_mean_enclosed_rho2rhocrit env_unit halo_unit (1 / 2)) = Inr (1 / 2)"
proof -
  let ?d = "NFW_mean_enclosed_rho2rhocrit env_unit halo_unit (1 / 2)"
  have om: "cosmo_Om env_unit (nfw_z halo_unit) = 1" by (simp add: env_unit_def)
  have f: "first_crossing env_unit halo_unit ?d = Some (1 / 2)"
    by (simp add: first_crossing_def overdensity_grid_unit)
  then have f': "first_crossing env_unit halo_unit (?d * cosmo_Om env_unit (nfw_z halo_unit)) = Some (1 / 2)"
    by (simp add: om)
  have "0 < Mvir halo_unit" "0 < cvir halo_unit" "0 < rho_scale halo_unit"
    "0 < cosmo_critical_density env_unit (nfw_z halo_unit)"
    "0 \<le> cosmo_Om env_unit (nfw_z halo_unit)" "cosmo_Om env_unit (nfw_z halo_unit) \<le> 1"
    "0 < dr halo_unit"
    by (simp_all add: env_unit_def halo_unit_def)
  from NFW_r200_first_grid_crossing [OF this, of ?d "1 / 2" "1 / 2"] f f'
  show ?thesis by simp
qed

theorem overdensity_radius_no_crossing_witness:
  "NFW_r200 env_unit halo_unit 0 = Inl IndexError \<and> NFW_r500 env_unit halo_unit 0 = Inl IndexError
 \<and> NFW_r200m env_unit halo_unit 0 = Inl IndexError \<and> NFW_r500m env_unit halo_unit 0 = Inl IndexError"
proof -
  have pos: "\<And>r. 0 < r \<Longrightarrow> 0 < NFW_mean_enclosed_rho2rhocrit env_unit halo_unit r"
    by (rule NFW_mean_pos) (simp_all add: env_unit_def halo_unit_def)
  have all: "\<forall>r\<in>set (overdensity_grid env_unit halo_unit).
      0 < NFW_mean_enclosed_rho2rhocrit env_unit halo_unit r"
    by (simp add: overdensity_grid_unit pos)
  have "dr halo_unit \<noteq> 0" by (simp add: halo_unit_def)
  from overdensity_radius_no_crossing [OF this, of env_unit 0] all
  show ?thesis by simp
qed

text \<open>
  C9. For a PowerLaw potential built with the default \<open>R_phi0_to_Rvir = 10\<close> and every \<open>r > 0\<close>:
  \<open>R_phi0 = 10 * Rvir\<close>, \<open>vc(r) = vc_Rvir * (r / Rvir)\<^sup>m\<close>, \<open>Phi(r)\<close> is the power-law formula when
  \<open>m \<noteq> 0\<close> and the logarithm when \<open>m = 0\<close>, and \<open>dlnvc_dlnR(r) = m\<close> whatever \<open>r\<close> is.
\<close>

theorem PowerLaw_contract:
  assumes "0 < r" and "p = PowerLaw_init m v R 10"
  shows "R_phi0 p = 10 * R
       \<and> PowerLaw_vc p r = v * (r / R) powr m
       \<and> (m \<noteq> 0 \<longrightarrow>
            PowerLaw_Phi p r = - v\<^sup>2 / (2 * m) * ((R_phi0 p / R) powr (2 * m) - (r / R) powr (2 * m)))
       \<and> (m = 0 \<longrightarrow> PowerLaw_Phi p r = - v\<^sup>2 * ln (R_phi0 p / r))
       \<and> (\<forall>r'. PowerLaw_dlnvc_dlnR p r' = m)"
  using assms(2)
  by (simp add: PowerLaw_init_def PowerLaw_vc_def PowerLaw_Phi_def PowerLaw_dlnvc_dlnR_def)

theorem PowerLaw_contract_witness:
  "PowerLaw_Phi (PowerLaw_init (1 / 10) 200 250 10) 100
      = - 200\<^sup>2 / (2 * (1 / 10)) * ((2500 / 250) powr (2 * (1 / 10)) - (100 / 250) powr (2 * (1 / 10)))
 \<and> PowerLaw_Phi (PowerLaw_init 0 200 250 10) 100 = - 200\<^sup>2 * ln (2500 / 100)
 \<and> PowerLaw_vc (PowerLaw_init 0 200 250 10) 100 = 200 * (100 / 250) powr 0
 \<and> PowerLaw_dlnvc_dlnR (PowerLaw_init (1 / 10) 200 250 10) 100 = 1 / 10"
  using PowerLaw_contract [of 100 "PowerLaw_init (1 / 10) 200 250 10" "1 / 10" 200 250]
    PowerLaw_contract [of 100 "PowerLaw_init 0 200 250 10" 0 200 250]
  by simp

text \<open>
  C10. \<open>r500\<close> is the same function of \<open>delta\<close> as \<open>r200\<close>, and \<open>r500m\<close> the same as \<open>r200m\<close>;
  the methods differ in their default argument only.
\<close>

theorem NFW_r500_is_r200:
  "NFW_r500 env self = NFW_r200 env self \<and> NFW_r500m env self = NFW_r200m env self"
  by (intro conjI ext) (simp_all add: NFW_r500_def NFW_r200_def NFW_r500m_def NFW_r200m_def)

text \<open>
  C5. For an NFW\_withGalaxy instance and every radius: the galaxy mass is
  \<open>Mgalaxy * (1 - e\<^bsup>-r/Rd\<^esup> * (Rd + r) / Rd)\<close>, the total enclosed mass is the halo-only enclosed
  mass plus the galaxy mass, and the total minus the galaxy mass is the halo-only enclosed
  mass. The halo on its own is the instance without its galaxy attributes.
\<close>

theorem NFW_withGalaxy_enclosedMass_sum:
  "NFW_withGalaxy_enclosedMass_galaxy self r
      = Mgalaxy self * (1 - exp (- r / Rd self) * (Rd self + r) / Rd self)
 \<and> NFW_withGalaxy_enclosedMass env self r
      = NFW_enclosedMass env (nfw.truncate self) r + NFW_withGalaxy_enclosedMass_galaxy self r
 \<and> NFW_withGalaxy_enclosedMass env self r - NFW_withGalaxy_enclosedMass_galaxy self r
      = NFW_enclosedMass env (nfw.truncate self) r"
proof -
  have "NFW_enclosedMass env (nfw.truncate self) r = NFW_enclosedMass env self r"
    by (simp add: NFW_enclosedMass_def NFW_r_scale_def NFW_rvir_def NFW_Delta_c_def nfw.truncate_def)
  then show ?thesis
    by (simp add: NFW_withGalaxy_enclosedMass_def NFW_withGalaxy_enclosedMass_galaxy_def
        exp1_powr Let_def)
qed

lemma nfw_truncate_simps:
  "NFW_rvir env (nfw.truncate self) = NFW_rvir env self"
  "NFW_r_scale env (nfw.truncate self) = NFW_r_scale env self"
  "NFW_enclosedMass env (nfw.truncate self) = NFW_enclosedMass env self"
  "NFW_mean_enclosed_rho2rhocrit env (nfw.truncate self) = NFW_mean_enclosed_rho2rhocrit env self"
  "dr (nfw.truncate self) = dr self"
  "nfw_z (nfw.truncate self) = nfw_z self"
  by (intro ext | simp add: NFW_mean_enclosed_rho2rhocrit_def NFW_enclosedMass_def NFW_r_scale_def
        NFW_rvir_def NFW_Delta_c_def nfw.truncate_def)+

text \<open>
  C6. In NFW\_withGalaxy, \<open>mean_enclosed_rho2rhocrit\<close>, \<open>M200\<close> and \<open>M200m\<close> leave the galaxy
  out: the mean density is that of the halo on its own, the overdensity radii searched with
  it are those of the halo on its own, and \<open>M200\<close>, \<open>M200m\<close> are the halo-only enclosed mass at
  \<open>r200\<close>, \<open>r200m\<close>.
\<close>

theorem NFW_withGalaxy_halo_only_quantities:
  "NFW_withGalaxy_mean_enclosed_rho2rhocrit env self r
      = NFW_mean_enclosed_rho2rhocrit env (nfw.truncate self) r
 \<and> NFW_withGalaxy_r200 env self delta = NFW_r200 env (nfw.truncate self) delta
 \<and> NFW_withGalaxy_r200m env self delta = NFW_r200m env (nfw.truncate self) delta
 \<and> NFW_withGalaxy_M200 env self delta
      = map_sum id (NFW_enclosedMass env (nfw.truncate self)) (NFW_withGalaxy_r200 env self delta)
 \<and> NFW_withGalaxy_M200m env self delta
      = map_sum id (NFW_enclosedMass env (nfw.truncate self)) (NFW_withGalaxy_r200m env self delta)
 \<and> NFW_withGalaxy_M200 env self delta = NFW_M200 env (nfw.truncate self) delta
 \<and> NFW_withGalaxy_M200m env self delta = NFW_M200m env (nfw.truncate self) delta"
proof -
  have m: "NFW_withGalaxy_mean_enclosed_rho2rhocrit env self
      = NFW_mean_enclosed_rho2rhocrit env self"
    by (intro ext)
       (simp add: NFW_withGalaxy_mean_enclosed_rho2rhocrit_def NFW_mean_enclosed_rho2rhocrit_def)
  have a: "NFW_withGalaxy_r200 env self delta = NFW_r200 env (nfw.truncate self) delta"
    by (simp add: NFW_withGalaxy_r200_def NFW_r200_def m nfw_truncate_simps Let_def
        split: sum.splits)
  have b: "NFW_withGalaxy_r200m env self delta = NFW_r200m env (nfw.truncate self) delta"
    by (simp add: NFW_withGalaxy_r200m_def NFW_r200m_def m nfw_truncate_simps Let_def
        split: sum.splits)
  show ?thesis
    by (simp add: a b m nfw_truncate_simps NFW_withGalaxy_M200_def NFW_withGalaxy_M200m_def
        NFW_M200_def NFW_M200m_def)
qed

text \<open>
  C7. \<open>NFW_withGalaxy.dlnvc_dlnR\<close> is not a pure, broadcasting function of its radius: on a
  scalar radius it raises TypeError, on an array of 20 radii it raises IndexError, and on
  an array of 21 radii it writes a line to the standard output before it returns.
\<close>

theorem NFW_withGalaxy_dlnvc_dlnR_not_pure:
  "NFW_withGalaxy_dlnvc_dlnR env self (Scalar r) = Inl TypeError
 \<and> NFW_withGalaxy_dlnvc_dlnR env self (Array (replicate 20 r)) = Inl IndexError
 \<and> NFW_withGalaxy_dlnvc_dlnR env self (Array (replicate 21 r))
      = Inr ([NFW_withGalaxy_dlnvc_dlnR_terms env self r],
             Array (replicate 21 (NFW_withGalaxy_dlnvc_dlnR_value env self r)))"
  by (simp add: NFW_withGalaxy_dlnvc_dlnR_def getitem_def)

lemma log_slope_algebra:
  fixes s x n :: real
  assumes s: "0 < s" and x: "0 < x" and n: "0 < n"
  defines "y \<equiv> 1 + x"
  defines "B \<equiv> n + x / y"
  defines "r \<equiv> s * x"
  defines "A \<equiv> s + r"
  shows "0.5 * (- r\<^sup>2 + A * (- r + A * B)) / (A * (r - A * B)) = (x / y\<^sup>2 * x / n - 1) / 2"
proof -
  have y: "0 < y" using x by (simp add: y_def)
  have A: "A = s * y" by (simp add: A_def r_def y_def algebra_simps)
  have AB: "A * B = s * (y * n + x)"
    using y by (simp add: A B_def field_simps)
  have num: "- r\<^sup>2 + A * (- r + A * B) = s\<^sup>2 * (y\<^sup>2 * n - x\<^sup>2)"
    unfolding AB unfolding A r_def by (simp add: algebra_simps power2_eq_square)
  have den: "A * (r - A * B) = - (s\<^sup>2 * (y\<^sup>2 * n))"
    unfolding AB unfolding A r_def by (simp add: algebra_simps power2_eq_square)
  have "0.5 * (s\<^sup>2 * (y\<^sup>2 * n - x\<^sup>2)) / (- (s\<^sup>2 * (y\<^sup>2 * n))) = (x / y\<^sup>2 * x / n - 1) / 2"
    using s y n by (simp add: field_simps power2_eq_square)
  then show ?thesis by (simp only: num den)
qed

lemma NFW_dlnvc_dlnR_shape:
  assumes s: "0 < NFW_r_scale env self" and r: "0 < r"
  shows "NFW_dlnvc_dlnR env self r
           = ((r / NFW_r_scale env self) / (1 + r / NFW_r_scale env self)\<^sup>2 * (r / NFW_r_scale env self)
                / nfw_shape (r / NFW_r_scale env self) - 1) / 2"
proof -
  define s' where "s' = NFW_r_scale env self"
  define x where "x = r / s'"
  define n where "n = nfw_shape x"
  have s': "0 < s'" using s by (simp add: s'_def)
  have x: "0 < x" using s' r by (simp add: x_def)
  have n: "0 < n" unfolding n_def using x by (rule nfw_shape_pos)
  have rx: "r = s' * x" using s' by (simp add: x_def)
  have B: "ln ((s' + r) / s') = n + x / (1 + x)"
  proof -
    have "(s' + r) / s' = 1 + x" using s' by (simp add: x_def field_simps)
    then show ?thesis by (simp add: n_def nfw_shape_def)
  qed
  have "NFW_dlnvc_dlnR env self r
      = 0.5 * (- (s' * x)\<^sup>2 + (s' + s' * x) * (- (s' * x) + (s' + s' * x) * (n + x / (1 + x))))
          / ((s' + s' * x) * (s' * x - (s' + s' * x) * (n + x / (1 + x))))"
    unfolding NFW_dlnvc_dlnR_def Let_def s'_def [symmetric] B
    by (simp only: rx [symmetric])
  also have "\<dots> = (x / (1 + x)\<^sup>2 * x / n - 1) / 2"
    using log_slope_algebra [OF s' x n] by simp
  finally show ?thesis by (simp only: x_def n_def s'_def)
qed

lemma ln_vc_of_ln_r_shape:
  assumes G: "0 < cons_G env" and rho: "0 < rho_scale self" and s: "0 < NFW_r_scale env self"
  shows "ln_vc_of_ln_r env self u
           = (ln (cons_G env * (16 * pi * rho_scale self * NFW_r_scale env self ^ 3))
               + ln (nfw_shape (exp u / NFW_r_scale env self)) - u) / 2"
proof -
  define K where "K = cons_G env * (16 * pi * rho_scale self * NFW_r_scale env self ^ 3)"
  define n where "n = nfw_shape (exp u / NFW_r_scale env self)"
  have K: "0 < K" using G rho s by (simp add: K_def)
  have n: "0 < n" unfolding n_def using s by (intro nfw_shape_pos) simp
  have "cons_G env * NFW_enclosedMass env self (exp u) / exp u = K * n / exp u"
    using NFW_enclosedMass_shape [OF s, of "exp u"] by (simp add: K_def n_def)
  then have "ln_vc_of_ln_r env self u = ln (sqrt (K * n / exp u))"
    by (simp add: ln_vc_of_ln_r_def NFW_vc_def Let_def)
  also have "\<dots> = ln (K * n / exp u) / 2"
    using K n by (intro ln_sqrt) simp
  also have "ln (K * n / exp u) = ln K + ln n - u"
    using K n by (simp add: ln_div ln_mult)
  finally show ?thesis by (simp only: K_def n_def)
qed

lemma ln_shape_deriv:
  assumes s: "0 < s"
  shows "((\<lambda>u. ln (nfw_shape (exp u / s))) has_real_derivative
           (exp u / s) / (1 + exp u / s)\<^sup>2 * (exp u / s) / nfw_shape (exp u / s)) (at u)"
proof -
  define x where "x = exp u / s"
  have x: "0 < x" using s by (simp add: x_def)
  have n: "0 < nfw_shape x" using x by (rule nfw_shape_pos)
  have s0: "s \<noteq> 0" using s by simp
  have d1: "((\<lambda>u. exp u / s) has_real_derivative x) (at u)"
    unfolding x_def using s0 by (auto intro!: derivative_eq_intros)
  have "0 \<le> x" using x by simp
  then have d2: "(nfw_shape has_real_derivative x / (1 + x)\<^sup>2) (at x)"
    by (rule nfw_shape_deriv)
  have d3: "((\<lambda>u. nfw_shape (exp u / s)) has_real_derivative x / (1 + x)\<^sup>2 * x) (at u)"
    using d2 d1 unfolding x_def by (rule DERIV_chain2)
  have d4: "(ln has_real_derivative 1 / nfw_shape x) (at (nfw_shape x))"
    using n by (rule DERIV_ln_divide)
  have "((\<lambda>u. ln (nfw_shape (exp u / s))) has_real_derivative
           1 / nfw_shape x * (x / (1 + x)\<^sup>2 * x)) (at u)"
    using d4 d3 unfolding x_def by (rule DERIV_chain2)
  moreover have "1 / nfw_shape x * (x / (1 + x)\<^sup>2 * x) = x / (1 + x)\<^sup>2 * x / nfw_shape x"
    by simp
  ultimately have "((\<lambda>u. ln (nfw_shape (exp u / s))) has_real_derivative
           x / (1 + x)\<^sup>2 * x / nfw_shape x) (at u)"
    by (simp only:)
  then show ?thesis unfolding x_def .
qed

text \<open>
  C2. For every radius \<open>r > 0\<close> of a halo with positive \<open>Mvir\<close>, \<open>cvir\<close> and \<open>rho_scale\<close>,
  \<open>dlnvc_dlnR(r)\<close> is the derivative of \<open>ln vc\<close> with respect to \<open>ln r\<close>, where
  \<open>vc(r) = sqrt (G \<cdot> enclosedMass(r) / r)\<close> is the closed-form circular velocity.
\<close>

theorem NFW_dlnvc_dlnR_is_logarithmic_derivative:
  assumes "0 < cons_G env" "0 < Mvir self" "0 < cvir self" "0 < rho_scale self"
    and "0 < cosmo_critical_density env (nfw_z self)"
    and "0 \<le> cosmo_Om env (nfw_z self)" "cosmo_Om env (nfw_z self) \<le> 1"
    and "0 < r"
  shows "(ln_vc_of_ln_r env self has_real_derivative NFW_dlnvc_dlnR env self r) (at (ln r))"
proof -
  define s where "s = NFW_r_scale env self"
  define c where "c = ln (cons_G env * (16 * pi * rho_scale self * s ^ 3))"
  have s: "0 < s"
    unfolding s_def using assms(2,3,5,6,7) by (rule NFW_r_scale_pos)
  have f: "ln_vc_of_ln_r env self = (\<lambda>u. (c + ln (nfw_shape (exp u / s)) - u) / 2)"
    unfolding c_def s_def
    using ln_vc_of_ln_r_shape [OF assms(1,4) s [unfolded s_def]] by (intro ext)
  have e: "exp (ln r) = r" using assms(8) by simp
  have "((\<lambda>u. (c + ln (nfw_shape (exp u / s)) - u) / 2) has_real_derivative
           (0 + (exp (ln r) / s) / (1 + exp (ln r) / s)\<^sup>2 * (exp (ln r) / s)
                  / nfw_shape (exp (ln r) / s) - 1) / 2) (at (ln r))"
    by (intro DERIV_cdivide DERIV_diff DERIV_add DERIV_const DERIV_ident ln_shape_deriv [OF s])
  then have "(ln_vc_of_ln_r env self has_real_derivative
           ((r / s) / (1 + r / s)\<^sup>2 * (r / s) / nfw_shape (r / s) - 1) / 2) (at (ln r))"
    unfolding f e by simp
  then show ?thesis
    unfolding NFW_dlnvc_dlnR_shape [OF s [unfolded s_def] assms(8)] s_def .
qed

theorem NFW_dlnvc_dlnR_is_logarithmic_derivative_witness:
  "(ln_vc_of_ln_r env_unit halo_unit has_real_derivative NFW_dlnvc_dlnR env_unit halo_unit 1)
     (at (ln 1))"
  by (rule NFW_dlnvc_dlnR_is_logarithmic_derivative) (simp_all add: env_unit_def halo_unit_def)

lemma NFW_update_simps:
  "NFW_rvir env (self\<lparr>dr := d\<rparr>) = NFW_rvir env self"
  "NFW_rvir env (self\<lparr>rho_scale := q\<rparr>) = NFW_rvir env self"
  "NFW_r_scale env (self\<lparr>dr := d\<rparr>) = NFW_r_scale env self"
  "NFW_r_scale env (self\<lparr>rho_scale := q\<rparr>) = NFW_r_scale env self"
  "NFW_rho2rho_scale env (self\<lparr>dr := d\<rparr>) = NFW_rho2rho_scale env self"
  "NFW_rho2rho_scale env (self\<lparr>rho_scale := q\<rparr>) = NFW_rho2rho_scale env self"
  by (intro ext | simp add: NFW_rho2rho_scale_def NFW_r_scale_def NFW_rvir_def NFW_Delta_c_def)+

lemma normalization_grid_update:
  "normalization_grid env (self\<lparr>rho_scale := q\<rparr>) = normalization_grid env self"
  "normalization_grid env (self\<lparr>dr := d\<rparr>) = normalization_grid env self"
  by (simp_all add: normalization_grid_def NFW_update_simps)

lemma arange_normalization_grid:
  assumes "dr self = NFW_r_scale env self / fdr self" "dr self \<noteq> 0"
  shows "arange (dr self) (NFW_rvir env self) (dr self) = Inr (normalization_grid env self)"
  using assms by (simp add: arange_def normalization_grid_def)

lemma discretized_mass_eq:
  assumes "dr self = NFW_r_scale env self / fdr self"
  shows "discretized_mass env self
           = rho_scale self * normalization_sum env self (normalization_grid env self)"
proof -
  have "discretized_mass env self
      = (\<Sum>r\<leftarrow>normalization_grid env self.
           rho_scale self * (4 * pi * r\<^sup>2 * dr self * NFW_rho2rho_scale env self r))"
    unfolding discretized_mass_def NFW_rho2rho_scale_def assms
    by (simp add: mult_ac)
  also have "\<dots> = rho_scale self * normalization_sum env self (normalization_grid env self)"
    unfolding normalization_sum_def by (simp add: sum_list_const_mult)
  finally show ?thesis .
qed

lemma sum_list_map_pos:
  fixes f :: "real \<Rightarrow> real"
  assumes "rs \<noteq> []" "\<forall>r\<in>set rs. 0 < f r"
  shows "0 < sum_list (map f rs)"
  using assms
proof (induction rs)
  case Nil
  then show ?case by simp
next
  case (Cons a rs)
  show ?case
  proof (cases "rs = []")
    case True
    with Cons.prems show ?thesis by simp
  next
    case False
    with Cons have "0 < sum_list (map f rs)" by simp
    moreover have "0 < f a" using Cons.prems by simp
    ultimately show ?thesis by simp
  qed
qed

lemma normalization_sum_pos:
  assumes s: "0 < NFW_r_scale env self" and d: "0 < dr self"
    and rs: "rs \<noteq> []" "\<forall>r\<in>set rs. 0 < r"
  shows "0 < normalization_sum env self rs"
proof -
  have pos_term: "0 < 4 * pi * r\<^sup>2 * dr self * NFW_rho2rho_scale env self r" if "0 < r" for r
  proof -
    have x: "0 < r / NFW_r_scale env self" using that s by simp
    then have "0 < (1 + r / NFW_r_scale env self)\<^sup>2" by (simp add: pos_add_strict)
    with x have "0 < r / NFW_r_scale env self * (1 + r / NFW_r_scale env self)\<^sup>2"
      by (rule mult_pos_pos)
    then have "0 < NFW_rho2rho_scale env self r"
      unfolding NFW_rho2rho_scale_def by (intro divide_pos_pos) simp_all
    then show ?thesis using that d by simp
  qed
  show ?thesis
    unfolding normalization_sum_def using rs pos_term
    by (intro sum_list_map_pos) auto
qed

lemma normalization_grid_nonempty:
  assumes rv: "0 < NFW_rvir env self" and c: "0 < cvir self" and f: "0 < fdr self"
    and cf: "1 < cvir self * fdr self"
  shows "normalization_grid env self \<noteq> []"
    and "\<forall>r\<in>set (normalization_grid env self). 0 < r"
proof -
  define d where "d = NFW_r_scale env self / fdr self"
  have d: "0 < d" using rv c f by (simp add: d_def NFW_r_scale_def)
  have "(NFW_rvir env self - d) / d = cvir self * fdr self - 1"
    using rv c f by (simp add: d_def NFW_r_scale_def field_simps)
  then have "0 < (NFW_rvir env self - d) / d" using cf by simp
  then have "0 < \<lceil>(NFW_rvir env self - d) / d\<rceil>" by simp
  then show "normalization_grid env self \<noteq> []"
    by (simp add: normalization_grid_def d_def)
  show "\<forall>r\<in>set (normalization_grid env self). 0 < r"
  proof
    fix r assume "r \<in> set (normalization_grid env self)"
    then obtain i where "r = d + real i * d"
      by (auto simp: normalization_grid_def d_def)
    moreover have "0 \<le> real i * d" using d by simp
    ultimately show "0 < r" using d by (simp add: add_pos_nonneg)
  qed
qed

lemma normalization_sum_update:
  "normalization_sum env (self\<lparr>rho_scale := q\<rparr>) rs = normalization_sum env self rs"
  by (simp add: normalization_sum_def NFW_update_simps)

text \<open>
  C1 as amended. When the normalization grid is not empty, that is when \<open>cvir * fdr > 1\<close>, the
  constructor returns, \<open>rho_scale\<close> is \<open>Mvir\<close> divided once by the discretized integral of
  the profile shape, and the discretized mass integral with that \<open>rho_scale\<close> is \<open>Mvir\<close>.
\<close>

theorem NFW_init_normalization:
  assumes "0 < Mvir0" "0 < cosmo_critical_density env z0"
    and "0 \<le> cosmo_Om env z0" "cosmo_Om env z0 \<le> 1"
    and "0 < c" "0 < fdr0" "1 < c * fdr0"
  shows "\<exists>self. NFW_init env Mvir0 z0 (Some c) fdr0 = Inr self
          \<and> rho_scale self = Mvir0 / normalization_sum env self (normalization_grid env self)
          \<and> discretized_mass env self = Mvir0"
proof -
  define self1 :: nfw where
    "self1 = \<lparr>fdr = fdr0, Mvir = Mvir0, nfw_z = z0, cvir = c, dr = 0, rho_scale = 0\<rparr>"
  define self2 where "self2 = self1\<lparr>dr := NFW_r_scale env self1 / fdr self1\<rparr>"
  define S where "S = normalization_sum env self2 (normalization_grid env self2)"
  define self3 where "self3 = self2\<lparr>rho_scale := Mvir0 / S\<rparr>"
  have fields: "fdr self2 = fdr0" "Mvir self2 = Mvir0" "nfw_z self2 = z0" "cvir self2 = c"
    by (simp_all add: self2_def self1_def)
  have step: "dr self2 = NFW_r_scale env self2 / fdr self2"
    by (simp add: self2_def NFW_update_simps)
  have rv: "0 < NFW_rvir env self2"
    using assms(1-4) by (intro NFW_rvir_pos) (simp_all add: fields)
  have rs: "0 < NFW_r_scale env self2"
    using rv assms(5) by (simp add: NFW_r_scale_def fields)
  have d: "0 < dr self2"
    using rs assms(6) by (simp add: step fields)
  then have d0: "dr self2 \<noteq> 0" by simp
  have grid: "arange (dr self2) (NFW_rvir env self2) (dr self2) = Inr (normalization_grid env self2)"
    using step d0 by (rule arange_normalization_grid)
  have init: "NFW_init env Mvir0 z0 (Some c) fdr0 = Inr self3"
    unfolding NFW_init_def Let_def option.case self1_def [symmetric] self2_def [symmetric] grid
    by (simp add: self3_def S_def fields)
  have ne: "normalization_grid env self2 \<noteq> []" "\<forall>r\<in>set (normalization_grid env self2). 0 < r"
    using rv assms(5,6,7) by (intro normalization_grid_nonempty; simp add: fields)+
  have S: "0 < S"
    unfolding S_def using rs d ne by (rule normalization_sum_pos)
  have S3: "normalization_sum env self3 (normalization_grid env self3) = S"
    by (simp add: self3_def S_def normalization_sum_update normalization_grid_update)
  have "dr self3 = NFW_r_scale env self3 / fdr self3"
    using step by (simp add: self3_def NFW_update_simps)
  then have "discretized_mass env self3 = rho_scale self3 * S"
    unfolding S3 [symmetric] by (rule discretized_mass_eq)
  also have "\<dots> = Mvir0" using S by (simp add: self3_def)
  finally have "discretized_mass env self3 = Mvir0" .
  moreover have "rho_scale self3 = Mvir0 / normalization_sum env self3 (normalization_grid env self3)"
    unfolding S3 by (simp add: self3_def)
  ultimately show ?thesis using init by blast
qed

lemma NFW_rvir_env_unit:
  assumes "Mvir self = 24 * pi ^ 3"
  shows "NFW_rvir env_unit self = 1"
proof -
  have "24 * pi ^ 3 / (4 / 3 * pi * (18 * pi\<^sup>2)) = 1"
    by (simp add: power2_eq_square power3_eq_cube)
  then show ?thesis
    by (simp add: NFW_rvir_def NFW_Delta_c_def env_unit_def assms)
qed

theorem NFW_init_normalization_witness:
  "\<exists>self. NFW_init env_unit (24 * pi ^ 3) 0 (Some 1) 2 = Inr self
      \<and> rho_scale self = 24 * pi ^ 3 / normalization_sum env_unit self (normalization_grid env_unit self)
      \<and> discretized_mass env_unit self = 24 * pi ^ 3"
  by (rule NFW_init_normalization) (simp_all add: env_unit_def)

text \<open>
  C1 as stated fails: with \<open>cvir = 1/2\<close> and \<open>fdr = 1\<close> the radial step is \<open>2 * rvir\<close>, the
  grid from \<open>radial_step\<close> to \<open>rvir\<close> is empty, and the discretized mass integral of the halo
  that the constructor returns is 0, not \<open>Mvir\<close>.
\<close>

theorem NFW_init_normalization_counterexample:
  "map_sum id (discretized_mass env_unit) (NFW_init env_unit (24 * pi ^ 3) 0 (Some (1 / 2)) 1) = Inr 0
 \<and> 24 * pi ^ 3 \<noteq> (0::real) \<and> (0::real) < 1 / 2 \<and> (0::real) < 1"
proof -
  define self1 :: nfw where
    "self1 = \<lparr>fdr = 1, Mvir = 24 * pi ^ 3, nfw_z = 0, cvir = 1 / 2, dr = 0, rho_scale = 0\<rparr>"
  have rv: "NFW_rvir env_unit self1 = 1"
    by (rule NFW_rvir_env_unit) (simp add: self1_def)
  have rs: "NFW_r_scale env_unit self1 = 2"
    by (simp add: NFW_r_scale_def rv) (simp add: self1_def)
  have f1: "fdr self1 = 1" by (simp add: self1_def)
  have e2: "self1\<lparr>dr := NFW_r_scale env_unit self1 / fdr self1\<rparr> = self1\<lparr>dr := 2\<rparr>"
    by (simp add: rs f1)
  have grid: "arange (dr (self1\<lparr>dr := 2\<rparr>)) (NFW_rvir env_unit (self1\<lparr>dr := 2\<rparr>))
      (dr (self1\<lparr>dr := 2\<rparr>)) = Inr []"
    by (simp add: NFW_update_simps rv arange_def)
  have init: "NFW_init env_unit (24 * pi ^ 3) 0 (Some (1 / 2)) 1
      = Inr (self1\<lparr>dr := 2, rho_scale := 0\<rparr>)"
    unfolding NFW_init_def Let_def option.case self1_def [symmetric] e2 grid
    by (simp add: normalization_sum_def)
  have "normalization_grid env_unit (self1\<lparr>dr := 2, rho_scale := 0\<rparr>) = []"
    by (simp add: normalization_grid_def NFW_update_simps rs rv) (simp add: self1_def)
  then have "discretized_mass env_unit (self1\<lparr>dr := 2, rho_scale := 0\<rparr>) = 0"
    by (simp add: discretized_mass_def)
  then show ?thesis by (simp add: init)
qed

lemma halo_unit_constructed: "NFW_init env_unit (24 * pi ^ 3) 0 (Some 1) 2 = Inr halo_unit"
proof -
  define self1 :: nfw where
    "self1 = \<lparr>fdr = 2, Mvir = 24 * pi ^ 3, nfw_z = 0, cvir = 1, dr = 0, rho_scale = 0\<rparr>"
  have rv: "NFW_rvir env_unit self1 = 1"
    by (rule NFW_rvir_env_unit) (simp add: self1_def)
  have rs: "NFW_r_scale env_unit self1 = 1"
    by (simp add: NFW_r_scale_def rv) (simp add: self1_def)
  have f1: "fdr self1 = 2" by (simp add: self1_def)
  have e2: "self1\<lparr>dr := NFW_r_scale env_unit self1 / fdr self1\<rparr> = self1\<lparr>dr := 1 / 2\<rparr>"
    by (simp add: rs f1)
  have "[0..<1] = [0]" by simp
  then have grid: "arange (dr (self1\<lparr>dr := 1 / 2\<rparr>)) (NFW_rvir env_unit (self1\<lparr>dr := 1 / 2\<rparr>))
      (dr (self1\<lparr>dr := 1 / 2\<rparr>)) = Inr [1 / 2]"
    by (simp add: NFW_update_simps rv arange_def)
  have "NFW_rho2rho_scale env_unit (self1\<lparr>dr := 1 / 2\<rparr>) (1 / 2) = 32 / 9"
    by (simp add: NFW_update_simps NFW_rho2rho_scale_def rs power2_eq_square)
  then have S: "normalization_sum env_unit (self1\<lparr>dr := 1 / 2\<rparr>) [1 / 2] = 16 * pi / 9"
    by (simp add: normalization_sum_def power2_eq_square)
  have q: "24 * pi ^ 3 / (16 * pi / 9) = 27 * pi\<^sup>2 / 2"
    by (simp add: power2_eq_square power3_eq_cube)
  have m: "Mvir (self1\<lparr>dr := 1 / 2\<rparr>) = 24 * pi ^ 3" by (simp add: self1_def)
  have "NFW_init env_unit (24 * pi ^ 3) 0 (Some 1) 2
      = Inr (self1\<lparr>dr := 1 / 2, rho_scale := 27 * pi\<^sup>2 / 2\<rparr>)"
    unfolding NFW_init_def Let_def option.case self1_def [symmetric] e2 grid sum.case S m q ..
  then show ?thesis by (simp add: self1_def halo_unit_def)
qed

end
